theory Spec2Isabelle
  imports Main "HOL-Library.Word"
begin

section \<open>Data model of \<open>pkgs/queries/node.go\<close>\<close>

text \<open>
  Go's \<open>int64\<close> and \<open>int32\<close> are machine words: subtraction wraps around and the
  comparisons \<open><\<close> and \<open>>\<close> of the source are the signed ones (\<open><s\<close>).
\<close>

type_synonym int64 = "64 word"
type_synonym int32 = "32 word"

text \<open>
  \<open>corev1.NodeCondition\<close>, reduced to the two fields the source reads.
  \<open>LastTransitionTime\<close> holds the value of \<open>condition.LastTransitionTime.Unix()\<close>.
\<close>

record NodeCondition =
  Type :: string
  LastTransitionTime :: int64

text \<open>
  \<open>corev1.Node\<close>: \<open>ObjectMeta.Name\<close> (read through \<open>GetName()\<close>),
  \<open>ObjectMeta.CreationTimestamp.Unix()\<close> and \<open>Status.Conditions\<close>, in the order reported.
\<close>

record Node =
  ObjectMeta_Name :: string
  ObjectMeta_CreationTimestamp :: int64
  Status_Conditions :: "NodeCondition list"

text \<open>
  \<open>types.NodeAlertSpec\<close> and its \<open>ReportStatus\<close>. The package \<open>types\<close> is imported by the
  source; the field types are the ones the source's expressions force: \<open>PendingThreshold\<close> is
  compared with an \<open>int64\<close>, \<open>MinNodes\<close> with an \<open>int32\<close>, the four flags stand under
  \<open>&&\<close>, and the remaining fields are passed to \<open>fmt.Sprint\<close> and to the alert function.
\<close>

record NodeReportStatus =
  NodeReady :: bool
  NodeOutOfDisk :: bool
  NodeMemoryPressure :: bool
  NodeDiskPressure :: bool
  PendingThreshold :: int64
  MinNodes :: int32

record NodeAlertSpec =
  Name :: string
  NodeFilter :: string
  ReportStatus :: NodeReportStatus
  AlerterType :: string
  AlerterName :: string

text \<open>\<open>PollErr\<close>, the error value \<open>PollNode\<close> returns.\<close>

record PollErr =
  Message :: string

text \<open>
  The two calls the source makes on \<open>clientset.CoreV1().Nodes()\<close>. A call returns either an
  error (\<open>Inl\<close>, holding the text of \<open>err.Error()\<close>) or the object (\<open>Inr\<close>). \<open>Nodes_List\<close>
  takes the label selector. The other list options are left out: two are the constant
  \<open>false\<close>, and \<open>TimeoutSeconds\<close> points to the package-level variable \<open>timeout\<close>, which is
  declared outside this file.
\<close>

record Clientset =
  Nodes_Get :: "string \<Rightarrow> string + Node"
  Nodes_List :: "string \<Rightarrow> string + Node list"

text \<open>
  The effects of a poll are its calls on the outside world, in the order they are made: a
  fetch by name, a list by label selector, and a call of the alert function with its four
  arguments (\<open>'c\<close> is \<open>types.AlertersConfig\<close>, which the source only passes through).
\<close>

datatype 'c call =
  Get_call string
  | List_call string
  | Alert_call string string string 'c

type_synonym 'c calls = "'c call list"

section \<open>The operations\<close>

text \<open>
  \<open>fmt.Sprint\<close> puts a space between two operands only when neither is a string; every
  operand in this source is a string, so the operands are joined as they are.
\<close>

definition fmt_Sprint :: "string list \<Rightarrow> string" where
  "fmt_Sprint operands = concat operands"

text \<open>
  The parameter \<open>alertFn\<close> of the source: calling it is recorded at the end of the log of
  calls made so far.
\<close>

definition alertFn :: "string \<Rightarrow> string \<Rightarrow> string \<Rightarrow> 'c \<Rightarrow> 'c calls \<Rightarrow> 'c calls" where
  "alertFn alerterType alerterName alertmessage alertersConfig w =
     w @ [Alert_call alerterType alerterName alertmessage alertersConfig]"

text \<open>
  The loop of \<open>checkNode\<close> over \<open>node.Status.Conditions\<close> (lines 104 to 135). A \<open>return\<close>
  in the source ends the loop: the branch makes no recursive call.
\<close>

fun checkNode_conditions ::
  "NodeAlertSpec \<Rightarrow> int64 \<Rightarrow> 'c \<Rightarrow> int64 \<Rightarrow> NodeCondition list \<Rightarrow> 'c calls \<Rightarrow> 'c calls" where
  "checkNode_conditions alertSpec tickertime alertersConfig nowSeconds [] w = w"
| "checkNode_conditions alertSpec tickertime alertersConfig nowSeconds (condition # rest) w =
     (let transitiontimeDiff = nowSeconds - LastTransitionTime condition in
      if Type condition = ''Ready'' then
        if transitiontimeDiff <s tickertime \<and> NodeReady (ReportStatus alertSpec) then
          alertFn (AlerterType alertSpec) (AlerterName alertSpec)
            (fmt_Sprint [''Node'', Name alertSpec,
               ''has changed ready status since last poll and may be restarting!''])
            alertersConfig w
        else checkNode_conditions alertSpec tickertime alertersConfig nowSeconds rest w
      else if Type condition = ''OutOfDisk'' then
        if transitiontimeDiff <s tickertime \<and> NodeOutOfDisk (ReportStatus alertSpec) then
          alertFn (AlerterType alertSpec) (AlerterName alertSpec)
            (fmt_Sprint [''Node'', Name alertSpec,
               ''has changed OutOfDisk status since last poll and may have observed disk space issues!''])
            alertersConfig w
        else checkNode_conditions alertSpec tickertime alertersConfig nowSeconds rest w
      else if Type condition = ''MemoryPressure'' then
        if transitiontimeDiff <s tickertime \<and> NodeMemoryPressure (ReportStatus alertSpec) then
          alertFn (AlerterType alertSpec) (AlerterName alertSpec)
            (fmt_Sprint [''Node'', Name alertSpec,
               ''has changed MemoryPressure status since last poll and may have observed memory pressure!''])
            alertersConfig w
        else checkNode_conditions alertSpec tickertime alertersConfig nowSeconds rest w
      else if Type condition = ''DiskPressure'' then
        if transitiontimeDiff <s tickertime \<and> NodeDiskPressure (ReportStatus alertSpec) then
          alertFn (AlerterType alertSpec) (AlerterName alertSpec)
            (fmt_Sprint [''Node'', Name alertSpec,
               ''has changed DiskPressure tatus since last poll and may have observed disk pressure!''])
            alertersConfig w
        else checkNode_conditions alertSpec tickertime alertersConfig nowSeconds rest w
      else checkNode_conditions alertSpec tickertime alertersConfig nowSeconds rest w)"

text \<open>
  \<open>checkNode\<close>. The argument \<open>nowSeconds\<close> is the value \<open>time.Now().Unix()\<close> returns at
  line 99; the last argument is the log of calls made before, the result the log after.
\<close>

definition checkNode ::
  "Node \<Rightarrow> NodeAlertSpec \<Rightarrow> int64 \<Rightarrow> 'c \<Rightarrow> int64 \<Rightarrow> 'c calls \<Rightarrow> 'c calls" where
  "checkNode node alertSpec tickertime alertersConfig nowSeconds w =
     (let statusCreatedSecondsDiff = nowSeconds - ObjectMeta_CreationTimestamp node in
      if PendingThreshold (ReportStatus alertSpec) <s statusCreatedSecondsDiff then
        checkNode_conditions alertSpec tickertime alertersConfig nowSeconds
          (Status_Conditions node) w
      else w)"

text \<open>
  Lines 37 to 39 of \<open>PollNode\<close>: a zero \<open>PendingThreshold\<close> is set to 10 in the function's
  copy of the specification.
\<close>

definition PollNode_defaults :: "NodeAlertSpec \<Rightarrow> NodeAlertSpec" where
  "PollNode_defaults alertSpec =
     (if PendingThreshold (ReportStatus alertSpec) = 0
      then alertSpec\<lparr>ReportStatus := (ReportStatus alertSpec)\<lparr>PendingThreshold := 10\<rparr>\<rparr>
      else alertSpec)"

text \<open>
  The loop of \<open>PollNode\<close> over \<open>nodes.Items\<close> (lines 78 to 86). Every call of \<open>checkNode\<close>
  reads the clock anew: \<open>time_Now k\<close> is the reading of the \<open>k\<close>-th call within one poll,
  counted from 0. A failed fetch returns at once.
\<close>

fun PollNode_items ::
  "Clientset \<Rightarrow> NodeAlertSpec \<Rightarrow> int64 \<Rightarrow> 'c \<Rightarrow> (nat \<Rightarrow> int64) \<Rightarrow> nat \<Rightarrow> Node list
     \<Rightarrow> 'c calls \<Rightarrow> PollErr option \<times> 'c calls" where
  "PollNode_items clientset alertSpec tickertime alertersConfig time_Now k [] w = (None, w)"
| "PollNode_items clientset alertSpec tickertime alertersConfig time_Now k (nodedata # rest) w =
     (case Nodes_Get clientset (ObjectMeta_Name nodedata) of
        Inl nodeerr \<Rightarrow>
          (Some \<lparr>Message = ''Unable to get node '' @ ObjectMeta_Name nodedata @ '': '' @ nodeerr\<rparr>,
           w @ [Get_call (ObjectMeta_Name nodedata)])
      | Inr node \<Rightarrow>
          PollNode_items clientset alertSpec tickertime alertersConfig time_Now (Suc k) rest
            (checkNode node alertSpec tickertime alertersConfig (time_Now k)
               (w @ [Get_call (ObjectMeta_Name nodedata)])))"

text \<open>
  Lines 71 to 75 of \<open>PollNode\<close>: the check of the number of listed nodes against
  \<open>MinNodes\<close>. \<open>int32(len(nodes.Items))\<close> keeps the low 32 bits of the length.
\<close>

definition PollNode_minimum :: "NodeAlertSpec \<Rightarrow> 'c \<Rightarrow> Node list \<Rightarrow> 'c calls \<Rightarrow> 'c calls" where
  "PollNode_minimum alertSpec alertersConfig items w =
     (if (word_of_nat (length items) :: int32) <s MinNodes (ReportStatus alertSpec)
      then alertFn (AlerterType alertSpec) (AlerterName alertSpec)
             (fmt_Sprint [''Node count with filter'', NodeFilter alertSpec,
                ''in under minimum specification!''])
             alertersConfig w
      else w)"

text \<open>
  Lines 41 to 88 of \<open>PollNode\<close>, on the specification with its defaults set. The result is
  the returned error (\<open>None\<close> for \<open>nil\<close>) and the log of calls.
\<close>

definition PollNode_poll ::
  "Clientset \<Rightarrow> NodeAlertSpec \<Rightarrow> int64 \<Rightarrow> 'c \<Rightarrow> (nat \<Rightarrow> int64) \<Rightarrow> 'c calls
     \<Rightarrow> PollErr option \<times> 'c calls" where
  "PollNode_poll clientset alertSpec tickertime alertersConfig time_Now w =
     (if Name alertSpec \<noteq> ''*'' then
        (case Nodes_Get clientset (Name alertSpec) of
           Inl nodeerr \<Rightarrow>
             (Some \<lparr>Message = ''Unable to get node '' @ Name alertSpec @ '': '' @ nodeerr\<rparr>,
              w @ [Get_call (Name alertSpec)])
         | Inr node \<Rightarrow>
             (None, checkNode node alertSpec tickertime alertersConfig (time_Now 0)
                      (w @ [Get_call (Name alertSpec)])))
      else
        (case Nodes_List clientset (NodeFilter alertSpec) of
           Inl nodeserr \<Rightarrow>
             (Some \<lparr>Message = ''Unable to get nodes: '' @ nodeserr\<rparr>,
              w @ [List_call (NodeFilter alertSpec)])
         | Inr items \<Rightarrow>
             PollNode_items clientset alertSpec tickertime alertersConfig time_Now 0 items
               (PollNode_minimum alertSpec alertersConfig items
                  (w @ [List_call (NodeFilter alertSpec)]))))"

text \<open>\<open>PollNode\<close>: the defaults, then the poll.\<close>

definition PollNode ::
  "Clientset \<Rightarrow> NodeAlertSpec \<Rightarrow> int64 \<Rightarrow> 'c \<Rightarrow> (nat \<Rightarrow> int64) \<Rightarrow> 'c calls
     \<Rightarrow> PollErr option \<times> 'c calls" where
  "PollNode clientset alertSpec tickertime alertersConfig time_Now w =
     PollNode_poll clientset (PollNode_defaults alertSpec) tickertime alertersConfig time_Now w"

section \<open>Notions of the specification\<close>

text \<open>
  The definitions of this section follow the words of the specification, not the source:
  the theorems below compare the source's functions with them.
\<close>

text \<open>The calls a run added to the log \<open>w\<close> it started from.\<close>

definition new_calls :: "'c calls \<Rightarrow> 'c calls \<Rightarrow> 'c calls" where
  "new_calls w w' = drop (length w) w'"

text \<open>A dispatch is a call of the alert function; a fetch is a call on the cluster.\<close>

fun is_dispatch :: "'c call \<Rightarrow> bool" where
  "is_dispatch (Alert_call t n m c) = True"
| "is_dispatch (Get_call n) = False"
| "is_dispatch (List_call f) = False"

fun is_fetch :: "'c call \<Rightarrow> bool" where
  "is_fetch (Alert_call t n m c) = False"
| "is_fetch (Get_call n) = True"
| "is_fetch (List_call f) = True"

fun call_message :: "'c call \<Rightarrow> string option" where
  "call_message (Alert_call t n m c) = Some m"
| "call_message (Get_call n) = None"
| "call_message (List_call f) = None"

text \<open>The four recognized kinds of condition; any other type is ignored.\<close>

definition spec_recognized :: "string \<Rightarrow> bool" where
  "spec_recognized kind \<longleftrightarrow>
     kind = ''Ready'' \<or> kind = ''OutOfDisk'' \<or> kind = ''MemoryPressure'' \<or> kind = ''DiskPressure''"

text \<open>The opt-in flag of \<open>reportStatus\<close> that corresponds to a kind.\<close>

definition spec_opt_in :: "NodeReportStatus \<Rightarrow> string \<Rightarrow> bool" where
  "spec_opt_in rs kind \<longleftrightarrow>
     (kind = ''Ready'' \<and> NodeReady rs) \<or> (kind = ''OutOfDisk'' \<and> NodeOutOfDisk rs) \<or>
     (kind = ''MemoryPressure'' \<and> NodeMemoryPressure rs) \<or>
     (kind = ''DiskPressure'' \<and> NodeDiskPressure rs)"

text \<open>
  A fresh transition: \<open>sinceTransition = now - condition.lastTransitionTime\<close> is less than
  \<open>tickInterval\<close>, in the arithmetic of \<open>int64\<close>.
\<close>

definition spec_fresh :: "int64 \<Rightarrow> int64 \<Rightarrow> NodeCondition \<Rightarrow> bool" where
  "spec_fresh tickInterval now condition \<longleftrightarrow>
     now - LastTransitionTime condition <s tickInterval"

text \<open>A condition fires: its kind is recognized, its transition fresh, its flag set.\<close>

definition spec_fires :: "NodeAlertSpec \<Rightarrow> int64 \<Rightarrow> int64 \<Rightarrow> NodeCondition \<Rightarrow> bool" where
  "spec_fires spec tickInterval now condition \<longleftrightarrow>
     spec_recognized (Type condition) \<and> spec_fresh tickInterval now condition \<and>
     spec_opt_in (ReportStatus spec) (Type condition)"

text \<open>The node past the age gate: \<open>age = now - node.creationTimestamp\<close> above the threshold.\<close>

definition spec_past_gate :: "NodeAlertSpec \<Rightarrow> int64 \<Rightarrow> Node \<Rightarrow> bool" where
  "spec_past_gate spec now node \<longleftrightarrow>
     PendingThreshold (ReportStatus spec) <s now - ObjectMeta_CreationTimestamp node"

text \<open>The kind-specific message, for the name it is to carry.\<close>

definition spec_message :: "string \<Rightarrow> string \<Rightarrow> string" where
  "spec_message name kind =
     ''Node'' @ name @
     (if kind = ''Ready'' then ''has changed ready status since last poll and may be restarting!''
      else if kind = ''OutOfDisk''
        then ''has changed OutOfDisk status since last poll and may have observed disk space issues!''
      else if kind = ''MemoryPressure''
        then ''has changed MemoryPressure status since last poll and may have observed memory pressure!''
      else ''has changed DiskPressure tatus since last poll and may have observed disk pressure!'')"

text \<open>The dispatch of the alert for a condition that fires.\<close>

definition spec_alert :: "NodeAlertSpec \<Rightarrow> 'c \<Rightarrow> NodeCondition \<Rightarrow> 'c call" where
  "spec_alert spec cfg condition =
     Alert_call (AlerterType spec) (AlerterName spec)
       (spec_message (Name spec) (Type condition)) cfg"

text \<open>The evaluator: past the age gate, the first condition that fires is the only alert.\<close>

definition spec_evaluate :: "Node \<Rightarrow> NodeAlertSpec \<Rightarrow> int64 \<Rightarrow> 'c \<Rightarrow> int64 \<Rightarrow> 'c calls" where
  "spec_evaluate node spec tickInterval cfg now =
     (if spec_past_gate spec now node then
        (case find (spec_fires spec tickInterval now) (Status_Conditions node) of
           None \<Rightarrow> []
         | Some condition \<Rightarrow> [spec_alert spec cfg condition])
      else [])"

text \<open>The message of the minimum-count alert.\<close>

definition spec_under_minimum_message :: "NodeAlertSpec \<Rightarrow> string" where
  "spec_under_minimum_message spec =
     ''Node count with filter'' @ NodeFilter spec @ ''in under minimum specification!''"

text \<open>The fetch of a node by name succeeds.\<close>

definition fetch_ok :: "Clientset \<Rightarrow> Node \<Rightarrow> bool" where
  "fetch_ok clientset nodedata \<longleftrightarrow>
     (case Nodes_Get clientset (ObjectMeta_Name nodedata) of Inl e \<Rightarrow> False | Inr node \<Rightarrow> True)"

text \<open>
  The selector on the listed nodes, all of whose fetches succeed: each is fetched anew by
  its name, and the node the fetch returns is the one evaluated, at the clock reading of
  its turn.
\<close>

definition spec_refetch_evaluate ::
  "Clientset \<Rightarrow> NodeAlertSpec \<Rightarrow> int64 \<Rightarrow> 'c \<Rightarrow> (nat \<Rightarrow> int64) \<Rightarrow> nat \<Rightarrow> Node list \<Rightarrow> 'c calls" where
  "spec_refetch_evaluate clientset spec tickInterval cfg time_Now k items =
     concat (map (\<lambda>(i, nodedata).
        Get_call (ObjectMeta_Name nodedata) #
        (case Nodes_Get clientset (ObjectMeta_Name nodedata) of
           Inl e \<Rightarrow> []
         | Inr node \<Rightarrow> spec_evaluate node spec tickInterval cfg (time_Now i)))
        (enumerate k items))"

section \<open>Example inputs\<close>

definition example_status :: NodeReportStatus where
  "example_status =
     \<lparr>NodeReady = True, NodeOutOfDisk = True, NodeMemoryPressure = False,
      NodeDiskPressure = False, PendingThreshold = 10, MinNodes = 3\<rparr>"

definition example_spec :: NodeAlertSpec where
  "example_spec =
     \<lparr>Name = ''worker-1'', NodeFilter = ''role=worker'', ReportStatus = example_status,
      AlerterType = ''email'', AlerterName = ''ops''\<rparr>"

definition example_filtered_spec :: NodeAlertSpec where
  "example_filtered_spec = example_spec\<lparr>Name := ''*''\<rparr>"

text \<open>Created at 900; \<open>Ready\<close> changed at 995, \<open>OutOfDisk\<close> at 998.\<close>

definition example_node :: Node where
  "example_node =
     \<lparr>ObjectMeta_Name = ''worker-1'', ObjectMeta_CreationTimestamp = 900,
      Status_Conditions =
        [\<lparr>Type = ''Ready'', LastTransitionTime = 995\<rparr>,
         \<lparr>Type = ''OutOfDisk'', LastTransitionTime = 998\<rparr>]\<rparr>"

definition example_node2 :: Node where
  "example_node2 = example_node\<lparr>ObjectMeta_Name := ''worker-2''\<rparr>"

text \<open>A cluster of two nodes; any other name is not found.\<close>

definition example_clientset :: Clientset where
  "example_clientset =
     \<lparr>Nodes_Get = (\<lambda>name.
        if name = ''worker-1'' then Inr example_node
        else if name = ''worker-2'' then Inr example_node2
        else Inl ''not found''),
      Nodes_List = (\<lambda>selector. Inr [example_node, example_node2])\<rparr>"

text \<open>Created at 995, five seconds before the clock reads 1000; \<open>Ready\<close> changed at 998.\<close>

definition example_young_node :: Node where
  "example_young_node =
     \<lparr>ObjectMeta_Name = ''worker-3'', ObjectMeta_CreationTimestamp = 995,
      Status_Conditions = [\<lparr>Type = ''Ready'', LastTransitionTime = 998\<rparr>]\<rparr>"

text \<open>Created at 990: at the clock reading 1000 its age is the threshold of 10 itself.\<close>

definition example_boundary_node :: Node where
  "example_boundary_node =
     \<lparr>ObjectMeta_Name = ''worker-4'', ObjectMeta_CreationTimestamp = 990,
      Status_Conditions = [\<lparr>Type = ''Ready'', LastTransitionTime = 995\<rparr>]\<rparr>"

text \<open>The conditions of \<open>example_node\<close> in the other order: \<open>OutOfDisk\<close> is reported first.\<close>

definition example_disk_first_node :: Node where
  "example_disk_first_node =
     \<lparr>ObjectMeta_Name = ''worker-5'', ObjectMeta_CreationTimestamp = 900,
      Status_Conditions =
        [\<lparr>Type = ''OutOfDisk'', LastTransitionTime = 998\<rparr>,
         \<lparr>Type = ''Ready'', LastTransitionTime = 995\<rparr>]\<rparr>"

text \<open>The example specification with the \<open>nodeReady\<close> flag off.\<close>

definition example_spec_ready_off :: NodeAlertSpec where
  "example_spec_ready_off = example_spec\<lparr>ReportStatus := example_status\<lparr>NodeReady := False\<rparr>\<rparr>"

text \<open>A specification that names a node the cluster does not have.\<close>

definition example_missing_spec :: NodeAlertSpec where
  "example_missing_spec = example_spec\<lparr>Name := ''worker-9''\<rparr>"

text \<open>A stale list: its second entry, \<open>worker-9\<close>, is no longer found when fetched.\<close>

definition example_stale_clientset :: Clientset where
  "example_stale_clientset =
     example_clientset\<lparr>Nodes_List := (\<lambda>selector.
        Inr [example_node, example_node\<lparr>ObjectMeta_Name := ''worker-9''\<rparr>, example_node2])\<rparr>"

text \<open>A specification whose \<open>PendingThreshold\<close> is configured as \<open>-5\<close>.\<close>

definition example_negative_spec :: NodeAlertSpec where
  "example_negative_spec = example_spec\<lparr>ReportStatus := example_status\<lparr>PendingThreshold := - 5\<rparr>\<rparr>"

text \<open>The example specification with \<open>PendingThreshold\<close> left unset.\<close>

definition example_unset_spec :: NodeAlertSpec where
  "example_unset_spec = example_spec\<lparr>ReportStatus := example_status\<lparr>PendingThreshold := 0\<rparr>\<rparr>"

section \<open>Properties\<close>

subsection \<open>The evaluator\<close>

lemma checkNode_conditions_append:
  "checkNode_conditions alertSpec tickertime cfg nowSeconds conditions w =
   w @ checkNode_conditions alertSpec tickertime cfg nowSeconds conditions []"
  by (induction conditions) (simp_all add: Let_def alertFn_def)

lemma checkNode_conditions_find:
  "checkNode_conditions alertSpec tickertime cfg nowSeconds conditions [] =
   (case find (spec_fires alertSpec tickertime nowSeconds) conditions of
      None \<Rightarrow> []
    | Some condition \<Rightarrow> [spec_alert alertSpec cfg condition])"
proof (induction conditions)
  case Nil
  show ?case by simp
next
  case (Cons c rest)
  show ?case
  proof (cases "spec_fires alertSpec tickertime nowSeconds c")
    case True
    then show ?thesis
      by (auto simp add: Let_def alertFn_def fmt_Sprint_def spec_fires_def spec_recognized_def
          spec_fresh_def spec_opt_in_def spec_alert_def spec_message_def)
  next
    case False
    then have "checkNode_conditions alertSpec tickertime cfg nowSeconds (c # rest) [] =
        checkNode_conditions alertSpec tickertime cfg nowSeconds rest []"
      by (auto simp add: Let_def spec_fires_def spec_recognized_def spec_fresh_def
          spec_opt_in_def)
    with False Cons.IH show ?thesis by simp
  qed
qed

lemma checkNode_eq_spec:
  "checkNode node alertSpec tickertime cfg nowSeconds w =
   w @ spec_evaluate node alertSpec tickertime cfg nowSeconds"
  unfolding checkNode_def spec_evaluate_def spec_past_gate_def Let_def
  using checkNode_conditions_append [of alertSpec tickertime cfg nowSeconds "Status_Conditions node" w]
  by (simp add: checkNode_conditions_find)

lemma find_first_firing:
  "\<forall>p\<in>set pre. \<not> P p \<Longrightarrow> P c \<Longrightarrow> find P (pre @ c # post) = Some c"
  by (induction pre) simp_all

lemma find_skip_not_firing:
  "\<not> P c \<Longrightarrow> find P (pre @ c # post) = find P (pre @ post)"
  by (induction pre) simp_all

lemma find_after_not_firing:
  "\<forall>p\<in>set pre. \<not> P p \<Longrightarrow> find P (pre @ post) = find P post"
  by (induction pre) simp_all

lemma spec_evaluate_length: "length (spec_evaluate node spec tickInterval cfg now) \<le> 1"
  by (simp add: spec_evaluate_def split: option.split)

lemma new_calls_append: "new_calls w (w @ new) = new"
  by (simp add: new_calls_def)

lemmas example_defs =
  example_status_def example_spec_def example_filtered_spec_def example_node_def
  example_node2_def example_clientset_def example_young_node_def example_boundary_node_def
  example_disk_first_node_def example_spec_ready_off_def example_missing_spec_def
  example_stale_clientset_def example_negative_spec_def example_unset_spec_def

lemmas spec_defs =
  spec_evaluate_def spec_past_gate_def spec_fires_def spec_fresh_def spec_recognized_def
  spec_opt_in_def spec_alert_def spec_message_def

text \<open>
  C2: a node whose age (\<open>now - creationTimestamp\<close>, as the source computes it) is less than
  or equal to \<open>pendingThreshold\<close> is not evaluated: \<open>checkNode\<close> leaves the log of calls as
  it found it, so it makes no dispatch call, whatever the node's conditions are.
\<close>

theorem checkNode_age_gate:
  assumes "nowSeconds - ObjectMeta_CreationTimestamp node \<le>s PendingThreshold (ReportStatus alertSpec)"
  shows "checkNode node alertSpec tickertime cfg nowSeconds w = w \<and>
         filter is_dispatch (new_calls w (checkNode node alertSpec tickertime cfg nowSeconds w)) = []"
proof -
  from assms
  have "\<not> PendingThreshold (ReportStatus alertSpec) <s nowSeconds - ObjectMeta_CreationTimestamp node"
    by (simp add: word_sless_alt word_sle_eq)
  then have "checkNode node alertSpec tickertime cfg nowSeconds w = w"
    by (simp add: checkNode_def)
  then show ?thesis by (simp add: new_calls_def)
qed

theorem checkNode_age_gate_witness:
  "1000 - ObjectMeta_CreationTimestamp example_young_node
     \<le>s PendingThreshold (ReportStatus example_spec) \<and>
   spec_fires example_spec 10 1000 (hd (Status_Conditions example_young_node)) \<and>
   checkNode example_young_node example_spec 10 () 1000 [Get_call ''worker-3'']
     = [Get_call ''worker-3'']"
proof -
  have gate: "1000 - ObjectMeta_CreationTimestamp example_young_node
     \<le>s PendingThreshold (ReportStatus example_spec)"
    by (simp add: example_defs word_sle_eq)
  have "spec_fires example_spec 10 1000 (hd (Status_Conditions example_young_node))"
    by (simp add: example_defs spec_defs word_sless_alt)
  with gate checkNode_age_gate [OF gate, of 10 "()" "[Get_call ''worker-3'']"]
  show ?thesis by simp
qed

text \<open>
  C6: evaluating a node adds at most one dispatch call to the log, for every node,
  specification, tick interval and clock reading. Past the age gate the call is the alert
  of the first condition, in the order reported, whose type is one of the four recognized
  kinds, whose transition is fresher than the tick interval and whose flag is set; the
  conditions after it have no influence on the result.
\<close>

theorem checkNode_first_match_wins:
  "length (new_calls w (checkNode node alertSpec tickertime cfg nowSeconds w)) \<le> 1 \<and>
   checkNode node alertSpec tickertime cfg nowSeconds w =
     w @ spec_evaluate node alertSpec tickertime cfg nowSeconds \<and>
   (\<forall>pre c post.
      spec_past_gate alertSpec nowSeconds node \<and> Status_Conditions node = pre @ c # post \<and>
      (\<forall>p\<in>set pre. \<not> spec_fires alertSpec tickertime nowSeconds p) \<and>
      spec_fires alertSpec tickertime nowSeconds c \<longrightarrow>
      checkNode node alertSpec tickertime cfg nowSeconds w = w @ [spec_alert alertSpec cfg c])"
proof (intro conjI allI impI)
  show "length (new_calls w (checkNode node alertSpec tickertime cfg nowSeconds w)) \<le> 1"
    using spec_evaluate_length [of node alertSpec tickertime cfg nowSeconds]
    by (simp add: checkNode_eq_spec new_calls_append)
  show "checkNode node alertSpec tickertime cfg nowSeconds w =
      w @ spec_evaluate node alertSpec tickertime cfg nowSeconds"
    by (rule checkNode_eq_spec)
next
  fix pre c post
  assume h: "spec_past_gate alertSpec nowSeconds node \<and> Status_Conditions node = pre @ c # post \<and>
      (\<forall>p\<in>set pre. \<not> spec_fires alertSpec tickertime nowSeconds p) \<and>
      spec_fires alertSpec tickertime nowSeconds c"
  then have "find (spec_fires alertSpec tickertime nowSeconds) (Status_Conditions node) = Some c"
    by (simp add: find_first_firing)
  with h show "checkNode node alertSpec tickertime cfg nowSeconds w = w @ [spec_alert alertSpec cfg c]"
    by (simp add: checkNode_eq_spec spec_evaluate_def)
qed

theorem checkNode_first_match_wins_witness:
  "spec_past_gate example_spec 1000 example_node \<and>
   Status_Conditions example_node =
     [] @ \<lparr>Type = ''Ready'', LastTransitionTime = 995\<rparr> #
       [\<lparr>Type = ''OutOfDisk'', LastTransitionTime = 998\<rparr>] \<and>
   spec_fires example_spec 10 1000 \<lparr>Type = ''Ready'', LastTransitionTime = 995\<rparr> \<and>
   spec_fires example_spec 10 1000 \<lparr>Type = ''OutOfDisk'', LastTransitionTime = 998\<rparr> \<and>
   checkNode example_node example_spec 10 () 1000 [] =
     [Alert_call ''email'' ''ops''
        ''Nodeworker-1has changed ready status since last poll and may be restarting!'' ()]"
proof -
  have a: "spec_past_gate example_spec 1000 example_node"
    by (simp add: example_defs spec_defs word_sless_alt)
  have b: "Status_Conditions example_node =
     [] @ \<lparr>Type = ''Ready'', LastTransitionTime = 995\<rparr> #
       [\<lparr>Type = ''OutOfDisk'', LastTransitionTime = 998\<rparr>]"
    by (simp add: example_defs)
  have c: "spec_fires example_spec 10 1000 \<lparr>Type = ''Ready'', LastTransitionTime = 995\<rparr>"
    by (simp add: example_defs spec_defs word_sless_alt)
  have d: "spec_fires example_spec 10 1000 \<lparr>Type = ''OutOfDisk'', LastTransitionTime = 998\<rparr>"
    by (simp add: example_defs spec_defs word_sless_alt)
  have "checkNode example_node example_spec 10 () 1000 [] =
      [] @ [spec_alert example_spec () \<lparr>Type = ''Ready'', LastTransitionTime = 995\<rparr>]"
    using checkNode_first_match_wins [of "[]" example_node example_spec 10 "()" 1000,
        THEN conjunct2, THEN conjunct2, rule_format,
        of "[]" "\<lparr>Type = ''Ready'', LastTransitionTime = 995\<rparr>"
           "[\<lparr>Type = ''OutOfDisk'', LastTransitionTime = 998\<rparr>]"] a b c
    by simp
  then have "checkNode example_node example_spec 10 () 1000 [] =
     [Alert_call ''email'' ''ops''
        ''Nodeworker-1has changed ready status since last poll and may be restarting!'' ()]"
    by (simp add: spec_alert_def spec_message_def example_defs)
  with a b c d show ?thesis by blast
qed

text \<open>
  C1, as the source has it: a node whose age is above \<open>pendingThreshold\<close> (strictly: at
  the threshold itself the node is skipped), with a \<open>Ready\<close> condition whose
  \<open>lastTransitionTime\<close> is 5 seconds before \<open>now\<close> and before which no condition of the
  list fires, \<open>tickInterval = 10\<close> and \<open>reportStatus.nodeReady\<close> set: evaluating the node
  adds exactly one dispatch call, with the ready-status message, and the evaluation stops
  there, whatever conditions follow in the list.
\<close>

theorem checkNode_ready_fresh:
  assumes "PendingThreshold (ReportStatus alertSpec) <s nowSeconds - ObjectMeta_CreationTimestamp node"
    and "Status_Conditions node = pre @ c # post"
    and "\<forall>p\<in>set pre. \<not> spec_fires alertSpec 10 nowSeconds p"
    and "Type c = ''Ready''"
    and "LastTransitionTime c = nowSeconds - 5"
    and "NodeReady (ReportStatus alertSpec)"
  shows "checkNode node alertSpec 10 cfg nowSeconds w =
           w @ [Alert_call (AlerterType alertSpec) (AlerterName alertSpec)
                  (''Node'' @ Name alertSpec @
                   ''has changed ready status since last poll and may be restarting!'') cfg] \<and>
         (\<forall>post'. checkNode (node\<lparr>Status_Conditions := pre @ c # post'\<rparr>) alertSpec 10 cfg nowSeconds w =
                  checkNode node alertSpec 10 cfg nowSeconds w)"
proof -
  have "nowSeconds - LastTransitionTime c = 5"
    using assms(5) by simp
  then have fresh: "spec_fresh 10 nowSeconds c"
    by (simp add: spec_fresh_def word_sless_alt)
  with assms(4,6) have fires: "spec_fires alertSpec 10 nowSeconds c"
    by (simp add: spec_fires_def spec_recognized_def spec_opt_in_def)
  have found: "find (spec_fires alertSpec 10 nowSeconds) (pre @ c # post') = Some c" for post'
    using assms(3) fires by (rule find_first_firing)
  have alert: "spec_alert alertSpec cfg c =
      Alert_call (AlerterType alertSpec) (AlerterName alertSpec)
        (''Node'' @ Name alertSpec @
         ''has changed ready status since last poll and may be restarting!'') cfg"
    using assms(4) by (simp add: spec_alert_def spec_message_def)
  have "checkNode (node\<lparr>Status_Conditions := pre @ c # post'\<rparr>) alertSpec 10 cfg nowSeconds w =
      w @ [spec_alert alertSpec cfg c]" for post'
    using assms(1) found [of post']
    by (simp add: checkNode_eq_spec spec_evaluate_def spec_past_gate_def)
  moreover have "node\<lparr>Status_Conditions := pre @ c # post\<rparr> = node"
    using assms(2) by simp
  ultimately show ?thesis
    using alert by (metis (no_types))
qed

theorem checkNode_ready_fresh_witness:
  "PendingThreshold (ReportStatus example_spec) <s 1000 - ObjectMeta_CreationTimestamp example_node \<and>
   Status_Conditions example_node =
     [] @ \<lparr>Type = ''Ready'', LastTransitionTime = 995\<rparr> #
       [\<lparr>Type = ''OutOfDisk'', LastTransitionTime = 998\<rparr>] \<and>
   NodeReady (ReportStatus example_spec) \<and>
   checkNode example_node example_spec 10 () 1000 [] =
     [Alert_call ''email'' ''ops''
        ''Nodeworker-1has changed ready status since last poll and may be restarting!'' ()] \<and>
   checkNode (example_node\<lparr>Status_Conditions :=
       [] @ \<lparr>Type = ''Ready'', LastTransitionTime = 995\<rparr> # []\<rparr>) example_spec 10 () 1000 [] =
     checkNode example_node example_spec 10 () 1000 []"
proof -
  have a: "PendingThreshold (ReportStatus example_spec)
      <s 1000 - ObjectMeta_CreationTimestamp example_node"
    by (simp add: example_defs word_sless_alt)
  have b: "Status_Conditions example_node =
     [] @ \<lparr>Type = ''Ready'', LastTransitionTime = 995\<rparr> #
       [\<lparr>Type = ''OutOfDisk'', LastTransitionTime = 998\<rparr>]"
    by (simp add: example_defs)
  have c: "\<forall>p\<in>set []. \<not> spec_fires example_spec 10 1000 p"
    by simp
  have d: "Type \<lparr>Type = ''Ready'', LastTransitionTime = 995\<rparr> = ''Ready''"
    by simp
  have e: "LastTransitionTime \<lparr>Type = ''Ready'', LastTransitionTime = 995\<rparr> = 1000 - 5"
    by simp
  have f: "NodeReady (ReportStatus example_spec)"
    by (simp add: example_defs)
  note r = checkNode_ready_fresh [OF a b c d e f, of "()" "[]"]
  have "checkNode example_node example_spec 10 () 1000 [] =
     [Alert_call ''email'' ''ops''
        ''Nodeworker-1has changed ready status since last poll and may be restarting!'' ()]"
    using r by (simp add: example_defs)
  moreover have "checkNode (example_node\<lparr>Status_Conditions :=
       [] @ \<lparr>Type = ''Ready'', LastTransitionTime = 995\<rparr> # []\<rparr>) example_spec 10 () 1000 [] =
     checkNode example_node example_spec 10 () 1000 []"
    using r by blast
  ultimately show ?thesis using a b f by blast
qed

text \<open>
  The claim C1 as stated fails twice. At the age of the threshold itself (creation at 990,
  clock at 1000, threshold 10) the node is skipped although the \<open>Ready\<close> condition changed
  5 seconds ago and the flag is set; and past the gate, the \<open>Ready\<close> condition of a node
  that reports a firing \<open>OutOfDisk\<close> condition before it is never reached: the one dispatch
  carries the other message.
\<close>

theorem checkNode_ready_counterexample:
  "PendingThreshold (ReportStatus example_spec)
     \<le>s 1000 - ObjectMeta_CreationTimestamp example_boundary_node \<and>
   \<lparr>Type = ''Ready'', LastTransitionTime = 1000 - 5\<rparr> \<in> set (Status_Conditions example_boundary_node) \<and>
   NodeReady (ReportStatus example_spec) \<and>
   checkNode example_boundary_node example_spec 10 () 1000 [] = [] \<and>
   PendingThreshold (ReportStatus example_spec)
     <s 1000 - ObjectMeta_CreationTimestamp example_disk_first_node \<and>
   \<lparr>Type = ''Ready'', LastTransitionTime = 1000 - 5\<rparr> \<in> set (Status_Conditions example_disk_first_node) \<and>
   checkNode example_disk_first_node example_spec 10 () 1000 [] =
     [Alert_call ''email'' ''ops''
        ''Nodeworker-1has changed OutOfDisk status since last poll and may have observed disk space issues!'' ()]"
  by (simp add: example_defs checkNode_def Let_def alertFn_def fmt_Sprint_def
      word_sless_alt word_sle_eq)

text \<open>
  C7: on a node past the age gate, a condition of a recognized kind whose transition is
  fresher than the tick interval but whose flag in \<open>reportStatus\<close> is off causes no dispatch
  call: the evaluation is that of the list without it, and where no condition before it
  fires, the scan goes on with the conditions after it.
\<close>

theorem checkNode_flag_off_continues:
  assumes "spec_past_gate alertSpec nowSeconds node"
    and "Status_Conditions node = pre @ c # post"
    and "spec_recognized (Type c)"
    and "spec_fresh tickertime nowSeconds c"
    and "\<not> spec_opt_in (ReportStatus alertSpec) (Type c)"
  shows "checkNode node alertSpec tickertime cfg nowSeconds w =
           checkNode (node\<lparr>Status_Conditions := pre @ post\<rparr>) alertSpec tickertime cfg nowSeconds w \<and>
         ((\<forall>p\<in>set pre. \<not> spec_fires alertSpec tickertime nowSeconds p) \<longrightarrow>
           checkNode node alertSpec tickertime cfg nowSeconds w =
             checkNode_conditions alertSpec tickertime cfg nowSeconds post w)"
proof -
  let ?P = "spec_fires alertSpec tickertime nowSeconds"
  from assms(5) have no: "\<not> ?P c"
    by (simp add: spec_fires_def)
  then have skip: "find ?P (pre @ c # post) = find ?P (pre @ post)"
    by (rule find_skip_not_firing)
  have first: "checkNode node alertSpec tickertime cfg nowSeconds w =
      checkNode (node\<lparr>Status_Conditions := pre @ post\<rparr>) alertSpec tickertime cfg nowSeconds w"
    using assms(2) skip by (simp add: checkNode_eq_spec spec_evaluate_def spec_past_gate_def)
  have second: "checkNode node alertSpec tickertime cfg nowSeconds w =
      checkNode_conditions alertSpec tickertime cfg nowSeconds post w"
    if pre: "\<forall>p\<in>set pre. \<not> ?P p"
  proof -
    have "find ?P (Status_Conditions node) = find ?P post"
      using assms(2) skip find_after_not_firing [OF pre, of post] by simp
    then have "checkNode node alertSpec tickertime cfg nowSeconds w =
        w @ checkNode_conditions alertSpec tickertime cfg nowSeconds post []"
      using assms(1) by (simp add: checkNode_eq_spec spec_evaluate_def checkNode_conditions_find)
    then show ?thesis
      using checkNode_conditions_append [of alertSpec tickertime cfg nowSeconds post w] by simp
  qed
  from first second show ?thesis by blast
qed

theorem checkNode_flag_off_continues_witness:
  "spec_past_gate example_spec_ready_off 1000 example_node \<and>
   Status_Conditions example_node =
     [] @ \<lparr>Type = ''Ready'', LastTransitionTime = 995\<rparr> #
       [\<lparr>Type = ''OutOfDisk'', LastTransitionTime = 998\<rparr>] \<and>
   spec_recognized ''Ready'' \<and>
   spec_fresh 10 1000 \<lparr>Type = ''Ready'', LastTransitionTime = 995\<rparr> \<and>
   \<not> spec_opt_in (ReportStatus example_spec_ready_off) ''Ready'' \<and>
   checkNode example_node example_spec_ready_off 10 () 1000 [] =
     [Alert_call ''email'' ''ops''
        ''Nodeworker-1has changed OutOfDisk status since last poll and may have observed disk space issues!'' ()]"
proof -
  let ?c = "\<lparr>Type = ''Ready'', LastTransitionTime = 995\<rparr>"
  have a: "spec_past_gate example_spec_ready_off 1000 example_node"
    by (simp add: example_defs spec_defs word_sless_alt)
  have b: "Status_Conditions example_node =
     [] @ ?c # [\<lparr>Type = ''OutOfDisk'', LastTransitionTime = 998\<rparr>]"
    by (simp add: example_defs)
  have c: "spec_recognized (Type ?c)"
    by (simp add: spec_recognized_def)
  have d: "spec_fresh 10 1000 ?c"
    by (simp add: spec_fresh_def word_sless_alt)
  have e: "\<not> spec_opt_in (ReportStatus example_spec_ready_off) (Type ?c)"
    by (simp add: example_defs spec_opt_in_def)
  have pre: "\<forall>p\<in>set []. \<not> spec_fires example_spec_ready_off 10 1000 p"
    by simp
  have "checkNode example_node example_spec_ready_off 10 () 1000 [] =
      checkNode_conditions example_spec_ready_off 10 () 1000
        [\<lparr>Type = ''OutOfDisk'', LastTransitionTime = 998\<rparr>] []"
    by (rule checkNode_flag_off_continues [OF a b c d e, THEN conjunct2, THEN mp, OF pre])
  then have "checkNode example_node example_spec_ready_off 10 () 1000 [] =
     [Alert_call ''email'' ''ops''
        ''Nodeworker-1has changed OutOfDisk status since last poll and may have observed disk space issues!'' ()]"
    by (simp add: example_defs Let_def alertFn_def fmt_Sprint_def word_sless_alt)
  with a b c d e show ?thesis by simp
qed

subsection \<open>The selector\<close>

lemma spec_evaluate_cases:
  "spec_evaluate node alertSpec tickInterval cfg now = [] \<or>
   (\<exists>c. spec_fires alertSpec tickInterval now c \<and> c \<in> set (Status_Conditions node) \<and>
      spec_evaluate node alertSpec tickInterval cfg now = [spec_alert alertSpec cfg c])"
proof (cases "find (spec_fires alertSpec tickInterval now) (Status_Conditions node)")
  case None
  then show ?thesis unfolding spec_evaluate_def by simp
next
  case (Some c)
  then have "spec_fires alertSpec tickInterval now c \<and> c \<in> set (Status_Conditions node)"
    by (auto simp add: find_Some_iff)
  with Some show ?thesis unfolding spec_evaluate_def by auto
qed

lemma spec_evaluate_no_fetch:
  "filter is_fetch (spec_evaluate node alertSpec tickInterval cfg now) = []"
  using spec_evaluate_cases [of node alertSpec tickInterval cfg now]
  by (auto simp add: spec_alert_def)

lemma spec_evaluate_not_minimum:
  "Name alertSpec = ''*'' \<Longrightarrow> a \<in> set (spec_evaluate node alertSpec tickInterval cfg now) \<Longrightarrow>
   call_message a \<noteq> Some (spec_under_minimum_message alertSpec)"
  using spec_evaluate_cases [of node alertSpec tickInterval cfg now]
  by (auto simp add: spec_alert_def spec_message_def spec_under_minimum_message_def)

lemma PollNode_items_ok:
  "\<forall>nodedata\<in>set items. fetch_ok clientset nodedata \<Longrightarrow>
   PollNode_items clientset alertSpec tickertime cfg time_Now k items w =
     (None, w @ spec_refetch_evaluate clientset alertSpec tickertime cfg time_Now k items)"
proof (induction items arbitrary: k w)
  case Nil
  show ?case by (simp add: spec_refetch_evaluate_def)
next
  case (Cons nodedata rest)
  from Cons.prems obtain node where
    got: "Nodes_Get clientset (ObjectMeta_Name nodedata) = Inr node"
    by (auto simp add: fetch_ok_def split: sum.splits)
  from Cons.prems have "\<forall>nodedata\<in>set rest. fetch_ok clientset nodedata"
    by simp
  note IH = Cons.IH [OF this]
  show ?case
    using got by (simp add: IH checkNode_eq_spec spec_refetch_evaluate_def)
qed

lemma PollNode_items_fail:
  "\<forall>nodedata\<in>set pre. fetch_ok clientset nodedata \<Longrightarrow>
   Nodes_Get clientset (ObjectMeta_Name bad) = Inl e \<Longrightarrow>
   PollNode_items clientset alertSpec tickertime cfg time_Now k (pre @ bad # post) w =
     (Some \<lparr>Message = ''Unable to get node '' @ ObjectMeta_Name bad @ '': '' @ e\<rparr>,
      w @ spec_refetch_evaluate clientset alertSpec tickertime cfg time_Now k pre
        @ [Get_call (ObjectMeta_Name bad)])"
proof (induction pre arbitrary: k w)
  case Nil
  then show ?case by (simp add: spec_refetch_evaluate_def)
next
  case (Cons nodedata rest)
  from Cons.prems obtain node where
    got: "Nodes_Get clientset (ObjectMeta_Name nodedata) = Inr node"
    by (auto simp add: fetch_ok_def split: sum.splits)
  from Cons.prems have "\<forall>nodedata\<in>set rest. fetch_ok clientset nodedata"
    by simp
  note IH = Cons.IH [OF this Cons.prems(2)]
  show ?case
    using got by (simp add: IH checkNode_eq_spec spec_refetch_evaluate_def)
qed

lemma PollNode_items_first_failure:
  assumes "\<not> (\<forall>nodedata\<in>set items. fetch_ok clientset nodedata)"
  obtains pre bad post e where "items = pre @ bad # post"
    and "\<forall>nodedata\<in>set pre. fetch_ok clientset nodedata"
    and "Nodes_Get clientset (ObjectMeta_Name bad) = Inl e"
proof -
  from assms have "\<exists>nodedata\<in>set items. \<not> fetch_ok clientset nodedata" by simp
  from split_list_first_prop [OF this]
  obtain pre bad post where s: "items = pre @ bad # post" "\<not> fetch_ok clientset bad"
    "\<forall>y\<in>set pre. \<not> \<not> fetch_ok clientset y"
    by blast
  from s(2) obtain e where "Nodes_Get clientset (ObjectMeta_Name bad) = Inl e"
    by (auto simp add: fetch_ok_def split: sum.splits)
  with s that show thesis by simp
qed

lemma spec_refetch_evaluate_not_minimum:
  "Name alertSpec = ''*'' \<Longrightarrow>
   a \<in> set (spec_refetch_evaluate clientset alertSpec tickInterval cfg time_Now k items) \<Longrightarrow>
   call_message a \<noteq> Some (spec_under_minimum_message alertSpec)"
proof (induction items arbitrary: k)
  case Nil
  then show ?case by (simp add: spec_refetch_evaluate_def)
next
  case (Cons nodedata rest)
  let ?here = "case Nodes_Get clientset (ObjectMeta_Name nodedata) of
      Inl e \<Rightarrow> []
    | Inr node \<Rightarrow> spec_evaluate node alertSpec tickInterval cfg (time_Now k)"
  from Cons.prems(2) consider "a = Get_call (ObjectMeta_Name nodedata)" | "a \<in> set ?here"
    | "a \<in> set (spec_refetch_evaluate clientset alertSpec tickInterval cfg time_Now (Suc k) rest)"
    by (auto simp add: spec_refetch_evaluate_def)
  then show ?case
  proof cases
    case 1
    then show ?thesis by simp
  next
    case 2
    then show ?thesis
    proof (cases "Nodes_Get clientset (ObjectMeta_Name nodedata)")
      case (Inl e)
      with 2 show ?thesis by simp
    next
      case (Inr node)
      with 2 have "a \<in> set (spec_evaluate node alertSpec tickInterval cfg (time_Now k))"
        by simp
      with Cons.prems(1) show ?thesis by (rule spec_evaluate_not_minimum)
    qed
  next
    case 3
    then show ?thesis by (rule Cons.IH [OF Cons.prems(1)])
  qed
qed

lemma spec_refetch_evaluate_fetches:
  "filter is_fetch (spec_refetch_evaluate clientset alertSpec tickInterval cfg time_Now k items) =
   map (\<lambda>nodedata. Get_call (ObjectMeta_Name nodedata)) items"
proof (induction items arbitrary: k)
  case Nil
  show ?case by (simp add: spec_refetch_evaluate_def)
next
  case (Cons nodedata rest)
  from Cons.IH [of "Suc k"] show ?case
    by (simp add: spec_refetch_evaluate_def spec_evaluate_no_fetch split: sum.split)
qed

lemma PollNode_defaults_fields [simp]:
  "Name (PollNode_defaults alertSpec) = Name alertSpec"
  "NodeFilter (PollNode_defaults alertSpec) = NodeFilter alertSpec"
  "AlerterType (PollNode_defaults alertSpec) = AlerterType alertSpec"
  "AlerterName (PollNode_defaults alertSpec) = AlerterName alertSpec"
  "MinNodes (ReportStatus (PollNode_defaults alertSpec)) = MinNodes (ReportStatus alertSpec)"
  by (simp_all add: PollNode_defaults_def)

lemma PollNode_minimum_defaults:
  "PollNode_minimum (PollNode_defaults alertSpec) cfg items w = PollNode_minimum alertSpec cfg items w"
  by (simp add: PollNode_minimum_def)

lemma PollNode_minimum_append:
  "PollNode_minimum alertSpec cfg items w = w @ PollNode_minimum alertSpec cfg items []"
  by (simp add: PollNode_minimum_def alertFn_def)

lemma sint_word_of_nat_small: "int n < 2 ^ 31 \<Longrightarrow> sint (word_of_nat n :: int32) = int n"
proof -
  assume n: "int n < 2 ^ 31"
  have "sint (word_of_int (int n) :: int32) = signed_take_bit (LENGTH(32) - 1) (int n)"
    by (rule sint_sbintrunc')
  also have "\<dots> = int n"
    using n by (simp add: signed_take_bit_int_eq_self)
  finally show ?thesis by simp
qed

lemma under_minimum_count: "int n < sint (m :: int32) \<Longrightarrow> (word_of_nat n :: int32) <s m"
proof -
  assume a: "int n < sint m"
  have "sint m < 2 ^ 31" using sint_lt [of m] by simp
  with a have n: "int n < 2 ^ 31" by linarith
  with a show ?thesis by (simp add: word_sless_alt sint_word_of_nat_small)
qed

lemma PollNode_minimum_no_fetch:
  "filter is_fetch (PollNode_minimum alertSpec cfg items []) = []"
  by (simp add: PollNode_minimum_def alertFn_def)

lemma PollNode_minimum_under:
  "int (length items) < sint (MinNodes (ReportStatus alertSpec)) \<Longrightarrow>
   PollNode_minimum alertSpec cfg items w =
     w @ [Alert_call (AlerterType alertSpec) (AlerterName alertSpec)
            (spec_under_minimum_message alertSpec) cfg]"
  by (simp add: PollNode_minimum_def alertFn_def fmt_Sprint_def spec_under_minimum_message_def
      under_minimum_count)

lemma PollNode_wildcard:
  "Name alertSpec = ''*'' \<Longrightarrow> Nodes_List clientset (NodeFilter alertSpec) = Inr items \<Longrightarrow>
   PollNode clientset alertSpec tickertime cfg time_Now w =
     PollNode_items clientset (PollNode_defaults alertSpec) tickertime cfg time_Now 0 items
       (PollNode_minimum alertSpec cfg items (w @ [List_call (NodeFilter alertSpec)]))"
  by (simp add: PollNode_def PollNode_poll_def PollNode_minimum_defaults)

lemma PollNode_wildcard_list_fails:
  "Name alertSpec = ''*'' \<Longrightarrow> Nodes_List clientset (NodeFilter alertSpec) = Inl e \<Longrightarrow>
   PollNode clientset alertSpec tickertime cfg time_Now w =
     (Some \<lparr>Message = ''Unable to get nodes: '' @ e\<rparr>, w @ [List_call (NodeFilter alertSpec)])"
  by (simp add: PollNode_def PollNode_poll_def)

lemma PollNode_named:
  "Name alertSpec \<noteq> ''*'' \<Longrightarrow>
   PollNode clientset alertSpec tickertime cfg time_Now w =
     (case Nodes_Get clientset (Name alertSpec) of
        Inl e \<Rightarrow> (Some \<lparr>Message = ''Unable to get node '' @ Name alertSpec @ '': '' @ e\<rparr>,
                   w @ [Get_call (Name alertSpec)])
      | Inr node \<Rightarrow> (None, w @ Get_call (Name alertSpec) #
          spec_evaluate node (PollNode_defaults alertSpec) tickertime cfg (time_Now 0)))"
  by (simp add: PollNode_def PollNode_poll_def checkNode_eq_spec split: sum.split)

text \<open>
  C3: for a filtered specification (name \<open>*\<close>) whose list returns fewer nodes than
  \<open>minNodes\<close>, the poll makes exactly one dispatch with the under-minimum message, which
  carries the filter. It is the call right after the list call, before any node is fetched
  or evaluated, and no later call of the poll carries that message, whatever the conditions
  of the nodes are and whether or not a later fetch fails.
\<close>

theorem PollNode_under_minimum:
  assumes "Name alertSpec = ''*''"
    and "Nodes_List clientset (NodeFilter alertSpec) = Inr items"
    and "int (length items) < sint (MinNodes (ReportStatus alertSpec))"
  shows "\<exists>rest. snd (PollNode clientset alertSpec tickertime cfg time_Now w) =
           w @ [List_call (NodeFilter alertSpec),
                Alert_call (AlerterType alertSpec) (AlerterName alertSpec)
                  (spec_under_minimum_message alertSpec) cfg] @ rest \<and>
           (\<forall>a\<in>set rest. call_message a \<noteq> Some (spec_under_minimum_message alertSpec))"
proof -
  let ?spec = "PollNode_defaults alertSpec"
  let ?head = "w @ [List_call (NodeFilter alertSpec),
                Alert_call (AlerterType alertSpec) (AlerterName alertSpec)
                  (spec_under_minimum_message alertSpec) cfg]"
  have star: "Name ?spec = ''*''"
    using assms(1) by simp
  have msg: "spec_under_minimum_message ?spec = spec_under_minimum_message alertSpec"
    by (simp add: spec_under_minimum_message_def)
  have poll: "PollNode clientset alertSpec tickertime cfg time_Now w =
      PollNode_items clientset ?spec tickertime cfg time_Now 0 items ?head"
    using PollNode_wildcard [OF assms(1,2), of tickertime cfg time_Now w]
      PollNode_minimum_under [OF assms(3), of cfg "w @ [List_call (NodeFilter alertSpec)]"]
    by simp
  show ?thesis
  proof (cases "\<forall>nodedata\<in>set items. fetch_ok clientset nodedata")
    case True
    let ?rest = "spec_refetch_evaluate clientset ?spec tickertime cfg time_Now 0 items"
    have "snd (PollNode clientset alertSpec tickertime cfg time_Now w) = ?head @ ?rest"
      using poll PollNode_items_ok [OF True, of ?spec tickertime cfg time_Now 0 ?head] by simp
    moreover have "\<forall>a\<in>set ?rest. call_message a \<noteq> Some (spec_under_minimum_message alertSpec)"
      using spec_refetch_evaluate_not_minimum [OF star, of _ clientset tickertime cfg time_Now 0 items]
        msg by simp
    ultimately show ?thesis by (intro exI [of _ ?rest]) simp
  next
    case False
    then obtain pre bad post e where split: "items = pre @ bad # post"
      and ok: "\<forall>nodedata\<in>set pre. fetch_ok clientset nodedata"
      and bad: "Nodes_Get clientset (ObjectMeta_Name bad) = Inl e"
      by (rule PollNode_items_first_failure)
    let ?rest = "spec_refetch_evaluate clientset ?spec tickertime cfg time_Now 0 pre
      @ [Get_call (ObjectMeta_Name bad)]"
    have "snd (PollNode clientset alertSpec tickertime cfg time_Now w) = ?head @ ?rest"
      using poll split
        PollNode_items_fail [OF ok bad, of ?spec tickertime cfg time_Now 0 post ?head] by simp
    moreover have "\<forall>a\<in>set ?rest. call_message a \<noteq> Some (spec_under_minimum_message alertSpec)"
      using spec_refetch_evaluate_not_minimum [OF star, of _ clientset tickertime cfg time_Now 0 pre]
        msg by auto
    ultimately show ?thesis by (intro exI [of _ ?rest]) simp
  qed
qed

theorem PollNode_under_minimum_witness:
  "Name example_filtered_spec = ''*'' \<and>
   Nodes_List example_clientset (NodeFilter example_filtered_spec) = Inr [example_node, example_node2] \<and>
   int (length [example_node, example_node2]) < sint (MinNodes (ReportStatus example_filtered_spec)) \<and>
   (\<exists>rest. snd (PollNode example_clientset example_filtered_spec 10 () (\<lambda>k. 1000) []) =
      [] @ [List_call ''role=worker'',
        Alert_call ''email'' ''ops''
          ''Node count with filterrole=workerin under minimum specification!'' ()] @ rest)"
proof -
  have a: "Name example_filtered_spec = ''*''"
    by (simp add: example_defs)
  have b: "Nodes_List example_clientset (NodeFilter example_filtered_spec) =
      Inr [example_node, example_node2]"
    by (simp add: example_filtered_spec_def example_spec_def example_clientset_def)
  have c: "int (length [example_node, example_node2])
      < sint (MinNodes (ReportStatus example_filtered_spec))"
    by (simp add: example_filtered_spec_def example_spec_def example_status_def)
  from PollNode_under_minimum [OF a b c, of 10 "()" "\<lambda>k. 1000" "[]"]
  obtain rest where
    "snd (PollNode example_clientset example_filtered_spec 10 () (\<lambda>k. 1000) []) =
      [] @ [List_call (NodeFilter example_filtered_spec),
        Alert_call (AlerterType example_filtered_spec) (AlerterName example_filtered_spec)
          (spec_under_minimum_message example_filtered_spec) ()] @ rest"
    by blast
  then have "snd (PollNode example_clientset example_filtered_spec 10 () (\<lambda>k. 1000) []) =
      [] @ [List_call ''role=worker'',
        Alert_call ''email'' ''ops''
          ''Node count with filterrole=workerin under minimum specification!'' ()] @ rest"
    by (simp add: example_filtered_spec_def example_spec_def spec_under_minimum_message_def)
  then have "\<exists>rest. snd (PollNode example_clientset example_filtered_spec 10 () (\<lambda>k. 1000) []) =
      [] @ [List_call ''role=worker'',
        Alert_call ''email'' ''ops''
          ''Node count with filterrole=workerin under minimum specification!'' ()] @ rest"
    by (rule exI)
  with a b c show ?thesis by blast
qed

text \<open>
  C4: for a specification whose name is not the wildcard \<open>*\<close>, the poll makes exactly one
  fetch, the fetch by that name, and no list call. If the fetch fails, \<open>PollNode\<close> returns
  an error whose message carries the node name and the cause, and the fetch is its only
  call: it makes no dispatch call.
\<close>

theorem PollNode_named_fetch:
  assumes "Name alertSpec \<noteq> ''*''"
  shows "filter is_fetch (new_calls w (snd (PollNode clientset alertSpec tickertime cfg time_Now w)))
           = [Get_call (Name alertSpec)] \<and>
         (\<forall>e. Nodes_Get clientset (Name alertSpec) = Inl e \<longrightarrow>
            PollNode clientset alertSpec tickertime cfg time_Now w =
              (Some \<lparr>Message = ''Unable to get node '' @ Name alertSpec @ '': '' @ e\<rparr>,
               w @ [Get_call (Name alertSpec)]) \<and>
            filter is_dispatch (new_calls w (snd (PollNode clientset alertSpec tickertime cfg time_Now w)))
              = [])"
proof (cases "Nodes_Get clientset (Name alertSpec)")
  case (Inl e)
  with assms show ?thesis
    by (simp add: PollNode_named new_calls_append)
next
  case (Inr node)
  with assms show ?thesis
    using new_calls_append [of w "Get_call (Name alertSpec) #
      spec_evaluate node (PollNode_defaults alertSpec) tickertime cfg (time_Now 0)"]
    by (simp add: PollNode_named spec_evaluate_no_fetch)
qed

theorem PollNode_named_fetch_witness:
  "Name example_missing_spec \<noteq> ''*'' \<and>
   Nodes_Get example_clientset (Name example_missing_spec) = Inl ''not found'' \<and>
   PollNode example_clientset example_missing_spec 10 () (\<lambda>k. 1000) [] =
     (Some \<lparr>Message = ''Unable to get node worker-9: not found''\<rparr>, [Get_call ''worker-9''])"
proof -
  have a: "Name example_missing_spec \<noteq> ''*''"
    by (simp add: example_defs)
  have b: "Nodes_Get example_clientset (Name example_missing_spec) = Inl ''not found''"
    by (simp add: example_defs)
  have "PollNode example_clientset example_missing_spec 10 () (\<lambda>k. 1000) [] =
     (Some \<lparr>Message = ''Unable to get node '' @ Name example_missing_spec @ '': '' @ ''not found''\<rparr>,
      [] @ [Get_call (Name example_missing_spec)])"
    using PollNode_named_fetch [OF a, of "[]" example_clientset 10 "()" "\<lambda>k. 1000"] b
    by blast
  then have "PollNode example_clientset example_missing_spec 10 () (\<lambda>k. 1000) [] =
     (Some \<lparr>Message = ''Unable to get node worker-9: not found''\<rparr>, [Get_call ''worker-9''])"
    by (simp add: example_missing_spec_def example_spec_def)
  with a b show ?thesis by blast
qed


text \<open>
  C5: for a filtered specification, \<open>PollNode\<close> returns \<open>nil\<close> exactly when no fetch failed,
  neither the list nor the fetch of any listed node, whatever alerts fired. When all
  succeed, the calls after the list call and the minimum check are, for each listed node in
  turn, the fetch by its name followed by the evaluation of the node that fetch returned.
  When the fetch of a listed node fails and those before it succeeded, \<open>PollNode\<close> returns
  the error for that node, and the failed fetch is the last call of the poll: the nodes
  listed after it are neither fetched nor evaluated.
\<close>

theorem PollNode_filtered_refetch:
  assumes "Name alertSpec = ''*''"
  shows
    "(fst (PollNode clientset alertSpec tickertime cfg time_Now w) = None \<longleftrightarrow>
        (\<exists>items. Nodes_List clientset (NodeFilter alertSpec) = Inr items \<and>
           (\<forall>nodedata\<in>set items. fetch_ok clientset nodedata))) \<and>
     (\<forall>items. Nodes_List clientset (NodeFilter alertSpec) = Inr items \<and>
        (\<forall>nodedata\<in>set items. fetch_ok clientset nodedata) \<longrightarrow>
        snd (PollNode clientset alertSpec tickertime cfg time_Now w) =
          PollNode_minimum alertSpec cfg items (w @ [List_call (NodeFilter alertSpec)]) @
          spec_refetch_evaluate clientset (PollNode_defaults alertSpec) tickertime cfg time_Now 0 items \<and>
        filter is_fetch (new_calls w (snd (PollNode clientset alertSpec tickertime cfg time_Now w))) =
          List_call (NodeFilter alertSpec) #
          map (\<lambda>nodedata. Get_call (ObjectMeta_Name nodedata)) items) \<and>
     (\<forall>pre bad post e. Nodes_List clientset (NodeFilter alertSpec) = Inr (pre @ bad # post) \<and>
        (\<forall>nodedata\<in>set pre. fetch_ok clientset nodedata) \<and>
        Nodes_Get clientset (ObjectMeta_Name bad) = Inl e \<longrightarrow>
        PollNode clientset alertSpec tickertime cfg time_Now w =
          (Some \<lparr>Message = ''Unable to get node '' @ ObjectMeta_Name bad @ '': '' @ e\<rparr>,
           PollNode_minimum alertSpec cfg (pre @ bad # post) (w @ [List_call (NodeFilter alertSpec)]) @
           spec_refetch_evaluate clientset (PollNode_defaults alertSpec) tickertime cfg time_Now 0 pre @
           [Get_call (ObjectMeta_Name bad)]))"
proof -
  let ?spec = "PollNode_defaults alertSpec"
  let ?w1 = "w @ [List_call (NodeFilter alertSpec)]"
  have ok: "PollNode clientset alertSpec tickertime cfg time_Now w =
      (None, PollNode_minimum alertSpec cfg items ?w1 @
        spec_refetch_evaluate clientset ?spec tickertime cfg time_Now 0 items)"
    if "Nodes_List clientset (NodeFilter alertSpec) = Inr items"
      and "\<forall>nodedata\<in>set items. fetch_ok clientset nodedata" for items
    using PollNode_wildcard [OF assms that(1), of tickertime cfg time_Now w]
      PollNode_items_ok [OF that(2), of ?spec tickertime cfg time_Now 0
        "PollNode_minimum alertSpec cfg items ?w1"]
    by simp
  have fail: "PollNode clientset alertSpec tickertime cfg time_Now w =
      (Some \<lparr>Message = ''Unable to get node '' @ ObjectMeta_Name bad @ '': '' @ e\<rparr>,
       PollNode_minimum alertSpec cfg (pre @ bad # post) ?w1 @
       spec_refetch_evaluate clientset ?spec tickertime cfg time_Now 0 pre @
       [Get_call (ObjectMeta_Name bad)])"
    if "Nodes_List clientset (NodeFilter alertSpec) = Inr (pre @ bad # post)"
      and "\<forall>nodedata\<in>set pre. fetch_ok clientset nodedata"
      and "Nodes_Get clientset (ObjectMeta_Name bad) = Inl e" for pre bad post e
    using PollNode_wildcard [OF assms that(1), of tickertime cfg time_Now w]
      PollNode_items_fail [OF that(2,3), of ?spec tickertime cfg time_Now 0 post
        "PollNode_minimum alertSpec cfg (pre @ bad # post) ?w1"]
    by simp
  have nil: "fst (PollNode clientset alertSpec tickertime cfg time_Now w) = None \<longleftrightarrow>
      (\<exists>items. Nodes_List clientset (NodeFilter alertSpec) = Inr items \<and>
         (\<forall>nodedata\<in>set items. fetch_ok clientset nodedata))"
  proof (cases "Nodes_List clientset (NodeFilter alertSpec)")
    case (Inl e)
    with assms show ?thesis by (simp add: PollNode_wildcard_list_fails)
  next
    case (Inr items)
    show ?thesis
    proof (cases "\<forall>nodedata\<in>set items. fetch_ok clientset nodedata")
      case True
      with Inr ok [OF Inr True] show ?thesis by simp
    next
      case False
      then obtain pre bad post e where split: "items = pre @ bad # post"
        and pre: "\<forall>nodedata\<in>set pre. fetch_ok clientset nodedata"
        and bad: "Nodes_Get clientset (ObjectMeta_Name bad) = Inl e"
        by (rule PollNode_items_first_failure)
      from Inr split have "Nodes_List clientset (NodeFilter alertSpec) = Inr (pre @ bad # post)"
        by simp
      from fail [OF this pre bad] Inr False show ?thesis by simp
    qed
  qed
  show ?thesis
  proof (intro conjI allI impI)
    show "fst (PollNode clientset alertSpec tickertime cfg time_Now w) = None \<longleftrightarrow>
      (\<exists>items. Nodes_List clientset (NodeFilter alertSpec) = Inr items \<and>
         (\<forall>nodedata\<in>set items. fetch_ok clientset nodedata))"
      by (rule nil)
  next
    fix items
    assume "Nodes_List clientset (NodeFilter alertSpec) = Inr items \<and>
        (\<forall>nodedata\<in>set items. fetch_ok clientset nodedata)"
    then have run: "PollNode clientset alertSpec tickertime cfg time_Now w =
        (None, PollNode_minimum alertSpec cfg items ?w1 @
          spec_refetch_evaluate clientset ?spec tickertime cfg time_Now 0 items)"
      using ok [of items] by simp
    have "PollNode_minimum alertSpec cfg items ?w1 @
          spec_refetch_evaluate clientset ?spec tickertime cfg time_Now 0 items =
        w @ (List_call (NodeFilter alertSpec) # PollNode_minimum alertSpec cfg items [] @
          spec_refetch_evaluate clientset ?spec tickertime cfg time_Now 0 items)"
      using PollNode_minimum_append [of alertSpec cfg items ?w1] by simp
    with run have "new_calls w (snd (PollNode clientset alertSpec tickertime cfg time_Now w)) =
        List_call (NodeFilter alertSpec) # PollNode_minimum alertSpec cfg items [] @
          spec_refetch_evaluate clientset ?spec tickertime cfg time_Now 0 items"
      by (simp add: new_calls_append)
    then have "filter is_fetch
          (new_calls w (snd (PollNode clientset alertSpec tickertime cfg time_Now w))) =
        List_call (NodeFilter alertSpec) #
        map (\<lambda>nodedata. Get_call (ObjectMeta_Name nodedata)) items"
      by (simp add: spec_refetch_evaluate_fetches PollNode_minimum_no_fetch)
    then show "filter is_fetch
          (new_calls w (snd (PollNode clientset alertSpec tickertime cfg time_Now w))) =
        List_call (NodeFilter alertSpec) #
        map (\<lambda>nodedata. Get_call (ObjectMeta_Name nodedata)) items" .
    from run show "snd (PollNode clientset alertSpec tickertime cfg time_Now w) =
          PollNode_minimum alertSpec cfg items ?w1 @
          spec_refetch_evaluate clientset ?spec tickertime cfg time_Now 0 items"
      by simp
  next
    fix pre bad post e
    assume "Nodes_List clientset (NodeFilter alertSpec) = Inr (pre @ bad # post) \<and>
        (\<forall>nodedata\<in>set pre. fetch_ok clientset nodedata) \<and>
        Nodes_Get clientset (ObjectMeta_Name bad) = Inl e"
    then show "PollNode clientset alertSpec tickertime cfg time_Now w =
          (Some \<lparr>Message = ''Unable to get node '' @ ObjectMeta_Name bad @ '': '' @ e\<rparr>,
           PollNode_minimum alertSpec cfg (pre @ bad # post) ?w1 @
           spec_refetch_evaluate clientset ?spec tickertime cfg time_Now 0 pre @
           [Get_call (ObjectMeta_Name bad)])"
      using fail [of pre bad post e] by simp
  qed
qed

theorem PollNode_filtered_refetch_witness:
  "Name example_filtered_spec = ''*'' \<and>
   Nodes_List example_clientset (NodeFilter example_filtered_spec) = Inr [example_node, example_node2] \<and>
   fetch_ok example_clientset example_node \<and> fetch_ok example_clientset example_node2 \<and>
   fst (PollNode example_clientset example_filtered_spec 10 () (\<lambda>k. 1000) []) = None \<and>
   filter is_fetch (new_calls [] (snd (PollNode example_clientset example_filtered_spec 10 ()
       (\<lambda>k. 1000) []))) =
     [List_call ''role=worker'', Get_call ''worker-1'', Get_call ''worker-2''] \<and>
   Nodes_List example_stale_clientset (NodeFilter example_filtered_spec) =
     Inr ([example_node] @ example_node\<lparr>ObjectMeta_Name := ''worker-9''\<rparr> # [example_node2]) \<and>
   fetch_ok example_stale_clientset example_node \<and>
   Nodes_Get example_stale_clientset ''worker-9'' = Inl ''not found'' \<and>
   PollNode example_stale_clientset example_filtered_spec 10 () (\<lambda>k. 1000) [] =
     (Some \<lparr>Message = ''Unable to get node worker-9: not found''\<rparr>,
      [List_call ''role=worker'', Get_call ''worker-1'',
       Alert_call ''email'' ''ops''
         ''Node*has changed ready status since last poll and may be restarting!'' (),
       Get_call ''worker-9''])"
proof -
  let ?bad = "example_node\<lparr>ObjectMeta_Name := ''worker-9''\<rparr>"
  have a: "Name example_filtered_spec = ''*''"
    by (simp add: example_defs)
  have b: "Nodes_List example_stale_clientset (NodeFilter example_filtered_spec) =
     Inr ([example_node] @ ?bad # [example_node2])"
    by (simp add: example_stale_clientset_def)
  have c: "fetch_ok example_stale_clientset example_node"
    by (simp add: fetch_ok_def example_stale_clientset_def example_clientset_def example_node_def)
  have d: "Nodes_Get example_stale_clientset ''worker-9'' = Inl ''not found''"
    by (simp add: example_stale_clientset_def example_clientset_def)
  have pre: "\<forall>nodedata\<in>set [example_node]. fetch_ok example_stale_clientset nodedata"
    using c by simp
  have bad: "Nodes_Get example_stale_clientset (ObjectMeta_Name ?bad) = Inl ''not found''"
    using d by simp
  have "PollNode example_stale_clientset example_filtered_spec 10 () (\<lambda>k. 1000) [] =
      (Some \<lparr>Message = ''Unable to get node '' @ ObjectMeta_Name ?bad @ '': '' @ ''not found''\<rparr>,
       PollNode_minimum example_filtered_spec () ([example_node] @ ?bad # [example_node2])
         ([] @ [List_call (NodeFilter example_filtered_spec)]) @
       spec_refetch_evaluate example_stale_clientset (PollNode_defaults example_filtered_spec)
         10 () (\<lambda>k. 1000) 0 [example_node] @
       [Get_call (ObjectMeta_Name ?bad)])"
    using PollNode_filtered_refetch [OF a, of example_stale_clientset 10 "()" "\<lambda>k. 1000" "[]",
        THEN conjunct2, THEN conjunct2, rule_format, of "[example_node]" ?bad "[example_node2]"
        "''not found''"] b c bad
    by simp
  also have "\<dots> =
     (Some \<lparr>Message = ''Unable to get node worker-9: not found''\<rparr>,
      [List_call ''role=worker'', Get_call ''worker-1'',
       Alert_call ''email'' ''ops''
         ''Node*has changed ready status since last poll and may be restarting!'' (),
       Get_call ''worker-9''])"
    by (simp add: example_defs spec_defs spec_refetch_evaluate_def PollNode_minimum_def
        PollNode_defaults_def word_sless_alt)
  finally have stale: "PollNode example_stale_clientset example_filtered_spec 10 () (\<lambda>k. 1000) [] =
     (Some \<lparr>Message = ''Unable to get node worker-9: not found''\<rparr>,
      [List_call ''role=worker'', Get_call ''worker-1'',
       Alert_call ''email'' ''ops''
         ''Node*has changed ready status since last poll and may be restarting!'' (),
       Get_call ''worker-9''])" .
  have l: "Nodes_List example_clientset (NodeFilter example_filtered_spec) =
      Inr [example_node, example_node2]"
    by (simp add: example_clientset_def)
  have f1: "fetch_ok example_clientset example_node"
    by (simp add: fetch_ok_def example_clientset_def example_node_def)
  have f2: "fetch_ok example_clientset example_node2"
    by (simp add: fetch_ok_def example_clientset_def example_node2_def example_node_def)
  have all: "\<forall>nodedata\<in>set [example_node, example_node2]. fetch_ok example_clientset nodedata"
    using f1 f2 by simp
  note r = PollNode_filtered_refetch [OF a, of example_clientset 10 "()" "\<lambda>k. 1000" "[]"]
  from r l all have nil: "fst (PollNode example_clientset example_filtered_spec 10 () (\<lambda>k. 1000) []) = None"
    by blast
  have "filter is_fetch (new_calls [] (snd (PollNode example_clientset example_filtered_spec 10 ()
       (\<lambda>k. 1000) []))) =
     List_call (NodeFilter example_filtered_spec) #
     map (\<lambda>nodedata. Get_call (ObjectMeta_Name nodedata)) [example_node, example_node2]"
    by (rule r [THEN conjunct2, THEN conjunct1, rule_format,
          of "[example_node, example_node2]", THEN conjunct2])
      (simp add: l f1 f2)
  then have fetches: "filter is_fetch (new_calls [] (snd (PollNode example_clientset
       example_filtered_spec 10 () (\<lambda>k. 1000) []))) =
     [List_call ''role=worker'', Get_call ''worker-1'', Get_call ''worker-2'']"
    by (simp add: example_filtered_spec_def example_spec_def example_node_def example_node2_def)
  from a b c d stale l f1 f2 nil fetches show ?thesis by blast
qed

lemma spec_evaluate_alerts:
  assumes "a \<in> set (spec_evaluate node alertSpec tickInterval cfg now)"
  shows "\<exists>kind. spec_recognized kind \<and>
     a = Alert_call (AlerterType alertSpec) (AlerterName alertSpec)
           (spec_message (Name alertSpec) kind) cfg"
proof -
  from assms spec_evaluate_cases [of node alertSpec tickInterval cfg now]
  obtain c where "spec_fires alertSpec tickInterval now c" and "a = spec_alert alertSpec cfg c"
    by auto
  then have "spec_recognized (Type c) \<and>
     a = Alert_call (AlerterType alertSpec) (AlerterName alertSpec)
           (spec_message (Name alertSpec) (Type c)) cfg"
    by (simp add: spec_fires_def spec_alert_def)
  then show ?thesis by (rule exI)
qed

lemma spec_refetch_evaluate_alerts:
  "a \<in> set (spec_refetch_evaluate clientset alertSpec tickInterval cfg time_Now k items) \<Longrightarrow>
   is_dispatch a \<Longrightarrow>
   \<exists>kind. spec_recognized kind \<and>
     a = Alert_call (AlerterType alertSpec) (AlerterName alertSpec)
           (spec_message (Name alertSpec) kind) cfg"
proof (induction items arbitrary: k)
  case Nil
  then show ?case by (simp add: spec_refetch_evaluate_def)
next
  case (Cons nodedata rest)
  let ?here = "case Nodes_Get clientset (ObjectMeta_Name nodedata) of
      Inl e \<Rightarrow> []
    | Inr node \<Rightarrow> spec_evaluate node alertSpec tickInterval cfg (time_Now k)"
  from Cons.prems(1) consider "a = Get_call (ObjectMeta_Name nodedata)" | "a \<in> set ?here"
    | "a \<in> set (spec_refetch_evaluate clientset alertSpec tickInterval cfg time_Now (Suc k) rest)"
    by (auto simp add: spec_refetch_evaluate_def)
  then show ?case
  proof cases
    case 1
    with Cons.prems(2) show ?thesis by simp
  next
    case 2
    show ?thesis
    proof (cases "Nodes_Get clientset (ObjectMeta_Name nodedata)")
      case (Inl e)
      with 2 show ?thesis by simp
    next
      case (Inr node)
      with 2 have "a \<in> set (spec_evaluate node alertSpec tickInterval cfg (time_Now k))"
        by simp
      then show ?thesis by (rule spec_evaluate_alerts)
    qed
  next
    case 3
    then show ?thesis using Cons.prems(2) by (rule Cons.IH)
  qed
qed

lemma PollNode_minimum_alerts:
  "a \<in> set (PollNode_minimum alertSpec cfg items []) \<Longrightarrow>
   a = Alert_call (AlerterType alertSpec) (AlerterName alertSpec)
         (spec_under_minimum_message alertSpec) cfg"
  by (simp add: PollNode_minimum_def alertFn_def fmt_Sprint_def spec_under_minimum_message_def
      split: if_splits)

lemma PollNode_wildcard_calls:
  assumes "Name alertSpec = ''*''"
  shows "\<exists>items' items.
     set (new_calls w (snd (PollNode clientset alertSpec tickertime cfg time_Now w))) \<subseteq>
       {List_call (NodeFilter alertSpec)} \<union> range Get_call \<union>
       set (PollNode_minimum alertSpec cfg items' []) \<union>
       set (spec_refetch_evaluate clientset (PollNode_defaults alertSpec) tickertime cfg time_Now 0 items)"
proof (cases "Nodes_List clientset (NodeFilter alertSpec)")
  case (Inl e)
  with assms show ?thesis
    by (simp add: PollNode_wildcard_list_fails new_calls_append)
next
  case (Inr items)
  let ?spec = "PollNode_defaults alertSpec"
  let ?w1 = "w @ [List_call (NodeFilter alertSpec)]"
  note poll = PollNode_wildcard [OF assms Inr, of tickertime cfg time_Now w]
  note min = PollNode_minimum_append [of alertSpec cfg items ?w1]
  show ?thesis
  proof (cases "\<forall>nodedata\<in>set items. fetch_ok clientset nodedata")
    case True
    have "snd (PollNode clientset alertSpec tickertime cfg time_Now w) =
        w @ (List_call (NodeFilter alertSpec) # PollNode_minimum alertSpec cfg items [] @
          spec_refetch_evaluate clientset ?spec tickertime cfg time_Now 0 items)"
      using poll min PollNode_items_ok [OF True, of ?spec tickertime cfg time_Now 0
          "PollNode_minimum alertSpec cfg items ?w1"]
      by simp
    then have "set (new_calls w (snd (PollNode clientset alertSpec tickertime cfg time_Now w))) \<subseteq>
       {List_call (NodeFilter alertSpec)} \<union> range Get_call \<union>
       set (PollNode_minimum alertSpec cfg items []) \<union>
       set (spec_refetch_evaluate clientset ?spec tickertime cfg time_Now 0 items)"
      by (auto simp add: new_calls_append)
    then show ?thesis by blast
  next
    case False
    then obtain pre bad post e where split: "items = pre @ bad # post"
      and ok: "\<forall>nodedata\<in>set pre. fetch_ok clientset nodedata"
      and bad: "Nodes_Get clientset (ObjectMeta_Name bad) = Inl e"
      by (rule PollNode_items_first_failure)
    have "snd (PollNode clientset alertSpec tickertime cfg time_Now w) =
        w @ (List_call (NodeFilter alertSpec) # PollNode_minimum alertSpec cfg items [] @
          spec_refetch_evaluate clientset ?spec tickertime cfg time_Now 0 pre @
          [Get_call (ObjectMeta_Name bad)])"
      using poll min split PollNode_items_fail [OF ok bad, of ?spec tickertime cfg time_Now 0 post
          "PollNode_minimum alertSpec cfg items ?w1"]
      by simp
    then have "set (new_calls w (snd (PollNode clientset alertSpec tickertime cfg time_Now w))) \<subseteq>
       {List_call (NodeFilter alertSpec)} \<union> range Get_call \<union>
       set (PollNode_minimum alertSpec cfg items []) \<union>
       set (spec_refetch_evaluate clientset ?spec tickertime cfg time_Now 0 pre)"
      by (auto simp add: new_calls_append)
    then show ?thesis by blast
  qed
qed


text \<open>
  C8, as the source has it: before any evaluation a zero \<open>pendingThreshold\<close> is replaced by
  the default 10, and any other value, a negative one included, is used as configured. So
  the value used during evaluation is never zero, it is positive whenever the configured
  value is not negative, and a specification with \<open>pendingThreshold\<close> unset (zero) behaves,
  in fetches, dispatches and returned error, as the same specification with
  \<open>pendingThreshold = 10\<close>.
\<close>

theorem PollNode_threshold_default:
  "PendingThreshold (ReportStatus (PollNode_defaults alertSpec)) \<noteq> 0 \<and>
   (0 \<le>s PendingThreshold (ReportStatus alertSpec) \<longrightarrow>
      0 <s PendingThreshold (ReportStatus (PollNode_defaults alertSpec))) \<and>
   (PendingThreshold (ReportStatus alertSpec) \<noteq> 0 \<longrightarrow> PollNode_defaults alertSpec = alertSpec) \<and>
   (PendingThreshold (ReportStatus alertSpec) = 0 \<longrightarrow>
      PendingThreshold (ReportStatus (PollNode_defaults alertSpec)) = 10 \<and>
      PollNode clientset alertSpec tickertime cfg time_Now w =
        PollNode clientset (alertSpec\<lparr>ReportStatus := (ReportStatus alertSpec)\<lparr>PendingThreshold := 10\<rparr>\<rparr>)
          tickertime cfg time_Now w)"
proof (intro conjI impI)
  show "PendingThreshold (ReportStatus (PollNode_defaults alertSpec)) \<noteq> 0"
    by (simp add: PollNode_defaults_def)
  show "0 <s PendingThreshold (ReportStatus (PollNode_defaults alertSpec))"
    if "0 \<le>s PendingThreshold (ReportStatus alertSpec)"
  proof (cases "PendingThreshold (ReportStatus alertSpec) = 0")
    case True
    then show ?thesis by (simp add: PollNode_defaults_def word_sless_alt)
  next
    case False
    then have "sint (PendingThreshold (ReportStatus alertSpec)) \<noteq> 0"
      by (simp add: signed_eq_0_iff)
    with that False show ?thesis
      by (simp add: PollNode_defaults_def word_sless_alt word_sle_eq)
  qed
  show "PollNode_defaults alertSpec = alertSpec"
    if "PendingThreshold (ReportStatus alertSpec) \<noteq> 0"
    using that by (simp add: PollNode_defaults_def)
  assume zero: "PendingThreshold (ReportStatus alertSpec) = 0"
  then show "PendingThreshold (ReportStatus (PollNode_defaults alertSpec)) = 10"
    by (simp add: PollNode_defaults_def)
  from zero have "PollNode_defaults alertSpec =
      PollNode_defaults (alertSpec\<lparr>ReportStatus := (ReportStatus alertSpec)\<lparr>PendingThreshold := 10\<rparr>\<rparr>)"
    by (simp add: PollNode_defaults_def)
  then show "PollNode clientset alertSpec tickertime cfg time_Now w =
        PollNode clientset (alertSpec\<lparr>ReportStatus := (ReportStatus alertSpec)\<lparr>PendingThreshold := 10\<rparr>\<rparr>)
          tickertime cfg time_Now w"
    by (simp add: PollNode_def)
qed

theorem PollNode_threshold_default_witness:
  "0 \<le>s PendingThreshold (ReportStatus example_unset_spec) \<and>
   PendingThreshold (ReportStatus example_unset_spec) = 0 \<and>
   0 <s PendingThreshold (ReportStatus (PollNode_defaults example_unset_spec)) \<and>
   PollNode example_clientset example_unset_spec 10 () (\<lambda>k. 1000) [] =
     PollNode example_clientset example_spec 10 () (\<lambda>k. 1000) [] \<and>
   PendingThreshold (ReportStatus example_negative_spec) \<noteq> 0 \<and>
   PollNode_defaults example_negative_spec = example_negative_spec"
proof -
  have n: "PendingThreshold (ReportStatus example_negative_spec) \<noteq> 0"
    by (simp add: example_defs)
  with PollNode_threshold_default [of example_negative_spec example_clientset 10 "()" "\<lambda>k. 1000" "[]"]
  have m: "PollNode_defaults example_negative_spec = example_negative_spec"
    by blast
  have a: "0 \<le>s PendingThreshold (ReportStatus example_unset_spec)"
    by (simp add: example_defs)
  have b: "PendingThreshold (ReportStatus example_unset_spec) = 0"
    by (simp add: example_defs)
  have c: "example_unset_spec\<lparr>ReportStatus :=
      (ReportStatus example_unset_spec)\<lparr>PendingThreshold := 10\<rparr>\<rparr> = example_spec"
    by (simp add: example_defs)
  note r = PollNode_threshold_default [of example_unset_spec example_clientset 10 "()" "\<lambda>k. 1000" "[]"]
  from r a have "0 <s PendingThreshold (ReportStatus (PollNode_defaults example_unset_spec))"
    by blast
  moreover from r b c have "PollNode example_clientset example_unset_spec 10 () (\<lambda>k. 1000) [] =
     PollNode example_clientset example_spec 10 () (\<lambda>k. 1000) []"
    by simp
  ultimately show ?thesis using a b n m by blast
qed


text \<open>
  The claim C8 as stated fails for a negative \<open>pendingThreshold\<close>: configured as \<open>-5\<close>, the
  value used during evaluation is \<open>-5\<close>, which is not positive, and a node of age 5 is
  evaluated and alerts.
\<close>

theorem PollNode_threshold_counterexample:
  "PendingThreshold (ReportStatus (PollNode_defaults example_negative_spec)) = - 5 \<and>
   \<not> 0 <s PendingThreshold (ReportStatus (PollNode_defaults example_negative_spec)) \<and>
   1000 - ObjectMeta_CreationTimestamp example_young_node = 5 \<and>
   checkNode example_young_node (PollNode_defaults example_negative_spec) 10 () 1000 [] =
     [Alert_call ''email'' ''ops''
        ''Nodeworker-1has changed ready status since last poll and may be restarting!'' ()]"
  by (simp add: example_defs PollNode_defaults_def checkNode_def Let_def alertFn_def
      fmt_Sprint_def word_sless_alt)


text \<open>
  C10: every alert that the evaluation of a node dispatches carries a kind-specific message
  built from the name field of the specification; the name of the node evaluated does not
  enter, and evaluating the node under any other name gives the same calls. For a filtered
  specification every dispatch of a poll is the under-minimum alert or a node-level alert
  whose message has \<open>*\<close> where a node name would stand, so that the alerts of one kind for
  distinct nodes are one and the same call.
\<close>

theorem checkNode_message_spec_name:
  "(\<forall>a\<in>set (new_calls w (checkNode node alertSpec tickertime cfg nowSeconds w)).
      \<exists>kind. spec_recognized kind \<and>
        a = Alert_call (AlerterType alertSpec) (AlerterName alertSpec)
              (spec_message (Name alertSpec) kind) cfg) \<and>
   checkNode (node\<lparr>ObjectMeta_Name := other\<rparr>) alertSpec tickertime cfg nowSeconds w =
     checkNode node alertSpec tickertime cfg nowSeconds w \<and>
   (Name alertSpec = ''*'' \<longrightarrow>
      (\<forall>a\<in>set (new_calls w (snd (PollNode clientset alertSpec tickertime cfg time_Now w))).
         is_dispatch a \<longrightarrow>
           a = Alert_call (AlerterType alertSpec) (AlerterName alertSpec)
                 (spec_under_minimum_message alertSpec) cfg \<or>
           (\<exists>kind. spec_recognized kind \<and>
              a = Alert_call (AlerterType alertSpec) (AlerterName alertSpec)
                    (spec_message ''*'' kind) cfg)))"
proof (intro conjI impI ballI)
  fix a
  assume "a \<in> set (new_calls w (checkNode node alertSpec tickertime cfg nowSeconds w))"
  then have "a \<in> set (spec_evaluate node alertSpec tickertime cfg nowSeconds)"
    by (simp add: checkNode_eq_spec new_calls_append)
  then show "\<exists>kind. spec_recognized kind \<and>
        a = Alert_call (AlerterType alertSpec) (AlerterName alertSpec)
              (spec_message (Name alertSpec) kind) cfg"
    by (rule spec_evaluate_alerts)
next
  show "checkNode (node\<lparr>ObjectMeta_Name := other\<rparr>) alertSpec tickertime cfg nowSeconds w =
     checkNode node alertSpec tickertime cfg nowSeconds w"
    by (simp add: checkNode_def)
next
  fix a
  assume star: "Name alertSpec = ''*''"
    and a: "a \<in> set (new_calls w (snd (PollNode clientset alertSpec tickertime cfg time_Now w)))"
    and d: "is_dispatch a"
  from PollNode_wildcard_calls [OF star, of w clientset tickertime cfg time_Now]
  obtain items' items where
    "set (new_calls w (snd (PollNode clientset alertSpec tickertime cfg time_Now w))) \<subseteq>
       {List_call (NodeFilter alertSpec)} \<union> range Get_call \<union>
       set (PollNode_minimum alertSpec cfg items' []) \<union>
       set (spec_refetch_evaluate clientset (PollNode_defaults alertSpec) tickertime cfg time_Now 0 items)"
    by blast
  with a d consider "a \<in> set (PollNode_minimum alertSpec cfg items' [])"
    | "a \<in> set (spec_refetch_evaluate clientset (PollNode_defaults alertSpec) tickertime cfg time_Now 0 items)"
    by auto
  then show "a = Alert_call (AlerterType alertSpec) (AlerterName alertSpec)
                 (spec_under_minimum_message alertSpec) cfg \<or>
           (\<exists>kind. spec_recognized kind \<and>
              a = Alert_call (AlerterType alertSpec) (AlerterName alertSpec)
                    (spec_message ''*'' kind) cfg)"
  proof cases
    case 1
    then show ?thesis by (simp add: PollNode_minimum_alerts)
  next
    case 2
    from spec_refetch_evaluate_alerts [OF 2 d] star show ?thesis by simp
  qed
qed

theorem checkNode_message_spec_name_witness:
  "Name example_filtered_spec = ''*'' \<and>
   is_dispatch (Alert_call ''email'' ''ops''
      ''Node*has changed ready status since last poll and may be restarting!'' ()) \<and>
   Alert_call ''email'' ''ops''
      ''Node*has changed ready status since last poll and may be restarting!'' ()
     \<in> set (new_calls [] (snd (PollNode example_clientset example_filtered_spec 10 ()
         (\<lambda>k. 1000) []))) \<and>
   (\<exists>kind. spec_recognized kind \<and>
      Alert_call ''email'' ''ops''
        ''Node*has changed ready status since last poll and may be restarting!'' () =
      Alert_call ''email'' ''ops'' (spec_message ''*'' kind) ()) \<and>
   checkNode example_node example_filtered_spec 10 () 1000 [] =
     [Alert_call ''email'' ''ops''
        ''Node*has changed ready status since last poll and may be restarting!'' ()] \<and>
   checkNode example_node2 example_filtered_spec 10 () 1000 [] =
     checkNode example_node example_filtered_spec 10 () 1000 [] \<and>
   new_calls [] (snd (PollNode example_clientset example_filtered_spec 10 () (\<lambda>k. 1000) [])) =
     [List_call ''role=worker'',
      Alert_call ''email'' ''ops''
        ''Node count with filterrole=workerin under minimum specification!'' (),
      Get_call ''worker-1'',
      Alert_call ''email'' ''ops''
        ''Node*has changed ready status since last poll and may be restarting!'' (),
      Get_call ''worker-2'',
      Alert_call ''email'' ''ops''
        ''Node*has changed ready status since last poll and may be restarting!'' ()]"
proof -
  note r = checkNode_message_spec_name [of "[]" example_node example_filtered_spec 10 "()" 1000
      "''worker-2''" example_clientset "\<lambda>k. 1000"]
  have a: "Name example_filtered_spec = ''*''"
    by (simp add: example_defs)
  have b: "checkNode example_node example_filtered_spec 10 () 1000 [] =
     [Alert_call ''email'' ''ops''
        ''Node*has changed ready status since last poll and may be restarting!'' ()]"
    by (simp add: checkNode_eq_spec example_defs spec_defs word_sless_alt)
  from r have "checkNode (example_node\<lparr>ObjectMeta_Name := ''worker-2''\<rparr>) example_filtered_spec
      10 () 1000 [] = checkNode example_node example_filtered_spec 10 () 1000 []"
    by blast
  then have c: "checkNode example_node2 example_filtered_spec 10 () 1000 [] =
     checkNode example_node example_filtered_spec 10 () 1000 []"
    by (simp add: example_node2_def)
  have d: "new_calls [] (snd (PollNode example_clientset example_filtered_spec 10 () (\<lambda>k. 1000) [])) =
     [List_call ''role=worker'',
      Alert_call ''email'' ''ops''
        ''Node count with filterrole=workerin under minimum specification!'' (),
      Get_call ''worker-1'',
      Alert_call ''email'' ''ops''
        ''Node*has changed ready status since last poll and may be restarting!'' (),
      Get_call ''worker-2'',
      Alert_call ''email'' ''ops''
        ''Node*has changed ready status since last poll and may be restarting!'' ()]"
    by (simp add: new_calls_def PollNode_def PollNode_poll_def PollNode_minimum_def
        PollNode_defaults_def checkNode_eq_spec alertFn_def fmt_Sprint_def example_defs spec_defs
        word_sless_alt)
  let ?a = "Alert_call ''email'' ''ops''
      ''Node*has changed ready status since last poll and may be restarting!'' ()"
  have disp: "is_dispatch ?a"
    by simp
  have mem: "?a \<in> set (new_calls [] (snd (PollNode example_clientset example_filtered_spec 10 ()
         (\<lambda>k. 1000) [])))"
    by (simp add: d)
  from r a mem disp
  have "?a = Alert_call (AlerterType example_filtered_spec) (AlerterName example_filtered_spec)
          (spec_under_minimum_message example_filtered_spec) () \<or>
        (\<exists>kind. spec_recognized kind \<and>
           ?a = Alert_call (AlerterType example_filtered_spec) (AlerterName example_filtered_spec)
                  (spec_message ''*'' kind) ())"
    by blast
  moreover have "?a \<noteq> Alert_call (AlerterType example_filtered_spec)
      (AlerterName example_filtered_spec) (spec_under_minimum_message example_filtered_spec) ()"
    by (simp add: spec_under_minimum_message_def)
  ultimately have "\<exists>kind. spec_recognized kind \<and>
      ?a = Alert_call (AlerterType example_filtered_spec) (AlerterName example_filtered_spec)
             (spec_message ''*'' kind) ()"
    by blast
  then have e: "\<exists>kind. spec_recognized kind \<and>
      ?a = Alert_call ''email'' ''ops'' (spec_message ''*'' kind) ()"
    by (simp add: example_filtered_spec_def example_spec_def)
  from a b c d disp mem e show ?thesis by blast
qed

end
